theory Spec2Isabelle
  imports Main
begin

section \<open>Python values used by \<open>ci/ci.py\<close>\<close>

text \<open>
  The script is Python 2: strings are byte strings (\<open>string\<close> here), a value that may be
  \<open>None\<close> is a \<open>string option\<close>, and every uncaught exception or \<open>exit\<close> ends the
  process. An abort is a value: \<open>SystemExit n\<close> for \<open>exit(n)\<close>, \<open>Raised cls msg\<close> for an
  uncaught exception of class \<open>cls\<close>.
\<close>

datatype abort = SystemExit nat | Raised string string

text \<open>Truthiness of an optional string: \<open>None\<close> and \<open>''\<close> are false.\<close>

fun truthy :: "string option \<Rightarrow> bool" where
  "truthy None = False"
| "truthy (Some s) = (s \<noteq> [])"

text \<open>\<open>x or "default"\<close>: the left operand when it is true, the right one otherwise.\<close>

definition py_or :: "string option \<Rightarrow> string \<Rightarrow> string option" where
  "py_or x d = (if truthy x then x else Some d)"

text \<open>\<open>s.startswith(p)\<close> on a string.\<close>

fun startswith :: "string \<Rightarrow> string \<Rightarrow> bool" where
  "startswith s [] = True"
| "startswith [] (p # ps) = False"
| "startswith (c # cs) (p # ps) = (c = p \<and> startswith cs ps)"

text \<open>
  The method call \<open>branch.startswith(p)\<close> on a value that may be \<open>None\<close>: \<open>None\<close> has no
  such attribute, and the call raises.
\<close>

definition startswith_method :: "string option \<Rightarrow> string \<Rightarrow> abort + bool" where
  "startswith_method b p =
     (case b of
        None \<Rightarrow> Inl (Raised ''AttributeError'' ''NoneType object has no attribute startswith'')
      | Some s \<Rightarrow> Inr (startswith s p))"

text \<open>\<open>str(x)\<close> as \<open>%s\<close> and \<open>{}\<close> format it: \<open>None\<close> is printed as \<open>None\<close>.\<close>

fun py_str :: "string option \<Rightarrow> string" where
  "py_str None = ''None''"
| "py_str (Some s) = s"

section \<open>The parsed command line\<close>

text \<open>
  The namespace \<open>parser.parse_args()\<close> returns in \<open>main\<close>: one field for each
  \<open>add_argument\<close>, \<open>store_true\<close> flags as booleans, the other options \<open>None\<close> when
  not given.
\<close>

record args =
  arg_commands :: "string list"
  arg_platform :: "string option"
  arg_with_asan :: bool
  arg_with_valgrind :: bool
  arg_with_vanilla_lua :: bool
  arg_archive :: bool
  arg_skip_tests :: bool
  arg_skip_builtins :: bool
  arg_skip_docs :: bool
  arg_engine_artifacts :: "string option"
  arg_keychain_cert :: "string option"
  arg_keychain_cert_pass :: "string option"
  arg_notarization_username :: "string option"
  arg_notarization_password :: "string option"
  arg_notarization_itc_provider :: "string option"

section \<open>Build flags of a branch\<close>

text \<open>
  The local variables that \<open>main\<close> sets from the branch name (the block under
  ``configure build flags based on the branch''), read by the command loop afterwards.
\<close>

record branch_config =
  engine_channel :: "string option"
  editor_channel :: "string option"
  release_channel :: "string option"
  make_release :: bool
  engine_artifacts :: "string option"
  skip_editor_tests :: bool

text \<open>
  The condition of the fifth branch, \<open>branch and branch.startswith("DEFEDIT-")\<close>:
  \<open>and\<close> evaluates its right operand only when the left one is true.
\<close>

definition is_defedit :: "string option \<Rightarrow> abort + bool" where
  "is_defedit branch =
     (if truthy branch then startswith_method branch ''DEFEDIT-'' else Inr False)"

text \<open>
  The \<open>if\<close>/\<open>elif\<close> chain of \<open>main\<close>, in the source's order. \<open>release_channel\<close> and
  \<open>skip_editor_tests\<close> are initialised to \<open>None\<close> and \<open>False\<close> before the chain and
  keep these values where a branch does not assign them. The block reads \<open>branch\<close> and
  \<open>args.engine_artifacts\<close>, assigns locals, and calls nothing but \<open>startswith\<close>.
\<close>

definition configure_build_flags :: "string option \<Rightarrow> args \<Rightarrow> abort + branch_config" where
  "configure_build_flags branch a =
     (if branch = Some ''master'' then
        Inr \<lparr>engine_channel = Some ''stable'',
             editor_channel = Some ''editor-alpha'',
             release_channel = Some ''editor-stable'',
             make_release = False,
             engine_artifacts = py_or (arg_engine_artifacts a) ''archived'',
             skip_editor_tests = False\<rparr>
      else if branch = Some ''beta'' then
        Inr \<lparr>engine_channel = Some ''beta'',
             editor_channel = Some ''beta'',
             release_channel = Some ''beta'',
             make_release = True,
             engine_artifacts = py_or (arg_engine_artifacts a) ''archived'',
             skip_editor_tests = False\<rparr>
      else if branch = Some ''dev'' then
        Inr \<lparr>engine_channel = Some ''alpha'',
             editor_channel = Some ''alpha'',
             release_channel = Some ''alpha'',
             make_release = True,
             engine_artifacts = py_or (arg_engine_artifacts a) ''archived'',
             skip_editor_tests = False\<rparr>
      else if branch = Some ''editor-dev'' then
        Inr \<lparr>engine_channel = None,
             editor_channel = Some ''editor-alpha'',
             release_channel = Some ''editor-alpha'',
             make_release = True,
             engine_artifacts = arg_engine_artifacts a,
             skip_editor_tests = False\<rparr>
      else
        (case is_defedit branch of
           Inl e \<Rightarrow> Inl e
         | Inr True \<Rightarrow>
             Inr \<lparr>engine_channel = None,
                  editor_channel = None,
                  release_channel = None,
                  make_release = False,
                  engine_artifacts = py_or (arg_engine_artifacts a) ''archived-stable'',
                  skip_editor_tests = False\<rparr>
         | Inr False \<Rightarrow>
             Inr \<lparr>engine_channel = Some ''dev'',
                  editor_channel = None,
                  release_channel = None,
                  make_release = False,
                  engine_artifacts = py_or (arg_engine_artifacts a) ''archived'',
                  skip_editor_tests = True\<rparr>))"

section \<open>Strings\<close>

text \<open>\<open>sep.join(xs)\<close>.\<close>

fun join :: "string \<Rightarrow> string list \<Rightarrow> string" where
  "join sep [] = []"
| "join sep [x] = x"
| "join sep (x # y # ys) = x @ sep @ join sep (y # ys)"

text \<open>The characters that \<open>strip\<close> and \<open>rstrip\<close> remove: space, tab, LF, VT, FF, CR.\<close>

definition is_space :: "char \<Rightarrow> bool" where
  "is_space c = (c \<in> {CHR '' '', CHR 0x09, CHR 0x0A, CHR 0x0B, CHR 0x0C, CHR 0x0D})"

definition rstrip :: "string \<Rightarrow> string" where
  "rstrip s = rev (dropWhile is_space (rev s))"

definition strip :: "string \<Rightarrow> string" where
  "strip s = dropWhile is_space (rstrip s)"

text \<open>
  The lines that successive \<open>readline()\<close> calls return on a pipe holding \<open>s\<close>: each ends
  with its newline, except possibly the last. At the end of the data \<open>readline\<close> returns
  \<open>''\<close>, which ends the loop of \<open>call\<close>.
\<close>

fun readlines :: "string \<Rightarrow> string list" where
  "readlines [] = []"
| "readlines (c # cs) =
     (if c = CHR 0x0A then [c] # readlines cs
      else (case readlines cs of [] \<Rightarrow> [[c]] | l # ls \<Rightarrow> (c # l) # ls))"

section \<open>Effects\<close>

text \<open>
  What the script does to the outside is recorded as a trace, oldest event first: a line
  printed on standard output, a shell command handed to \<open>subprocess.Popen\<close>, and the
  file operations of \<open>setup_keychain\<close>.
\<close>

datatype event =
    Print string
  | Spawn string
  | OpenFile string
  | WriteFile string string
  | RemoveFile string

type_synonym trace = "event list"

text \<open>
  What the outside answers is a parameter: the host's system name, the output and exit
  status of a shell command (which may depend on everything done before), whether a file
  operation succeeds, and the result of \<open>base64.decodestring\<close> (\<open>None\<close> when it raises).
  A spawned process is taken to end with a finite output.
\<close>

record host =
  host_system :: string
  host_popen :: "trace \<Rightarrow> string \<Rightarrow> string \<times> int"
  host_open :: "trace \<Rightarrow> string \<Rightarrow> bool"
  host_write :: "trace \<Rightarrow> string \<Rightarrow> bool"
  host_remove :: "trace \<Rightarrow> string \<Rightarrow> bool"
  host_decodestring :: "string \<Rightarrow> string option"

text \<open>
  A statement maps the trace so far to a result and the extended trace. An abort stops
  the statements that follow it.
\<close>

type_synonym 'a action = "trace \<Rightarrow> (abort + 'a) \<times> trace"

definition and_then :: "'a action \<Rightarrow> ('a \<Rightarrow> 'b action) \<Rightarrow> 'b action" where
  "and_then m f t = (case m t of (Inl e, t') \<Rightarrow> (Inl e, t') | (Inr x, t') \<Rightarrow> f x t')"

definition seq :: "unit action \<Rightarrow> 'b action \<Rightarrow> 'b action" where
  "seq m n = and_then m (\<lambda>_. n)"

definition discard :: "'a action \<Rightarrow> unit action" where
  "discard m = and_then m (\<lambda>_ t. (Inr (), t))"

definition skip :: "unit action" where
  "skip t = (Inr (), t)"

definition abort_with :: "abort \<Rightarrow> 'a action" where
  "abort_with e t = (Inl e, t)"

definition py_print :: "string \<Rightarrow> unit action" where
  "py_print s t = (Inr (), t @ [Print s])"

text \<open>A \<open>for\<close> loop whose body is a statement.\<close>

fun for_each :: "('a \<Rightarrow> unit action) \<Rightarrow> 'a list \<Rightarrow> unit action" where
  "for_each body [] t = (Inr (), t)"
| "for_each body (x # xs) t =
     (case body x t of (Inl e, t') \<Rightarrow> (Inl e, t') | (Inr u, t') \<Rightarrow> for_each body xs t')"

section \<open>Running shell commands\<close>

text \<open>
  \<open>call\<close> prints the command, spawns it, echoes every output line without its trailing
  white space, and exits with status 1 when the command fails and \<open>failonerror\<close> is set.
  It returns the whole output.
\<close>

definition call :: "host \<Rightarrow> string \<Rightarrow> bool \<Rightarrow> string action" where
  "call h args failonerror t =
     (let (output, status) = host_popen h t args;
          t' = t @ [Print args, Spawn args] @ map (\<lambda>line. Print (rstrip line)) (readlines output)
      in if status \<noteq> 0 \<and> failonerror then (Inl (SystemExit 1), t') else (Inr output, t'))"

definition PLATFORMS_DESKTOP :: "string list" where
  "PLATFORMS_DESKTOP = [''x86_64-linux'', ''x86_64-win32'', ''x86_64-darwin'']"

definition platform_from_host :: "host \<Rightarrow> string" where
  "platform_from_host h =
     (if host_system h = ''Linux'' then ''x86_64-linux''
      else if host_system h = ''Darwin'' then ''x86_64-darwin''
      else ''x86_64-win32'')"

definition aptfast :: "host \<Rightarrow> string \<Rightarrow> unit action" where
  "aptfast h package =
     discard (call h (''sudo apt-fast install -y --no-install-recommends '' @ package) True)"

section \<open>The build steps\<close>

text \<open>
  Each step assembles one command line for \<open>scripts/build.py\<close> and runs it with \<open>call\<close>.
  A list written \<open>"a b c".split()\<close> in the source is written as the list it denotes.
\<close>

definition build_engine ::
  "host \<Rightarrow> string \<Rightarrow> bool \<Rightarrow> bool \<Rightarrow> bool \<Rightarrow> bool \<Rightarrow> bool \<Rightarrow> bool \<Rightarrow> bool \<Rightarrow> bool
     \<Rightarrow> string option \<Rightarrow> unit action" where
  "build_engine h platform with_valgrind with_asan with_vanilla_lua skip_tests skip_codesign
       skip_docs skip_builtins archive channel =
     (let args = [''python'', ''scripts/build.py'', ''distclean'', ''install_ext'']
               @ (if platform = ''js-web'' \<or> platform = ''wasm-web'' then [''install_ems''] else [])
               @ [''build_engine'']
               @ (if archive then [''archive_engine''] else []);
          opts = [''--platform='' @ platform]
               @ (if truthy channel then [''--channel='' @ py_str channel] else [])
               @ (if skip_codesign then [''--skip-codesign''] else [])
               @ (if skip_docs then [''--skip-docs''] else [])
               @ (if skip_builtins then [''--skip-builtins''] else [])
               @ (if skip_tests then [''--skip-tests''] else []);
          waf_opts = (if skip_tests then [''--skip-build-tests''] else [])
               @ (if with_valgrind then [''--with-valgrind''] else [])
               @ (if with_asan then [''--with-asan''] else [])
               @ (if with_vanilla_lua then [''--use-vanilla-lua''] else []);
          cmd = join '' '' (args @ opts)
               @ (if waf_opts \<noteq> [] then '' -- '' @ join '' '' waf_opts else [])
      in discard (call h cmd True))"

definition build_editor2 :: "host \<Rightarrow> string option \<Rightarrow> string option \<Rightarrow> bool \<Rightarrow> unit action" where
  "build_editor2 h channel artifacts skip_tests =
     (let host_platform = platform_from_host h
      in if host_platform \<notin> set PLATFORMS_DESKTOP then skip
         else
           (let opts = (if truthy artifacts then [''--engine-artifacts='' @ py_str artifacts] else [])
                     @ (if truthy channel then [''--channel='' @ py_str channel] else [])
                     @ (if skip_tests then [''--skip-tests''] else []);
                opts_string = join '' '' opts
            in seq (discard (call h (''python scripts/build.py distclean install_ext build_editor2 --platform=''
                                      @ host_platform @ '' '' @ opts_string) True))
                   (for_each (\<lambda>platform.
                        discard (call h (''python scripts/build.py bundle_editor2 --platform=''
                                          @ platform @ '' '' @ opts_string) True))
                      PLATFORMS_DESKTOP)))"

definition download_editor2 :: "host \<Rightarrow> string option \<Rightarrow> string option \<Rightarrow> unit action" where
  "download_editor2 h channel platform =
     (let platforms = (case platform of None \<Rightarrow> PLATFORMS_DESKTOP | Some p \<Rightarrow> [p]);
          opts = (if truthy channel then [''--channel='' @ py_str channel] else [])
      in for_each (\<lambda>platform.
             discard (call h (''python scripts/build.py download_editor2 --platform=''
                               @ platform @ '' '' @ join '' '' opts) True))
           platforms)"

definition notarize_editor2 ::
  "host \<Rightarrow> string option \<Rightarrow> string option \<Rightarrow> string option \<Rightarrow> unit action" where
  "notarize_editor2 h notarization_username notarization_password notarization_itc_provider =
     (if \<not> truthy notarization_username \<or> \<not> truthy notarization_password then
        seq (py_print ''No notarization username or password'') (abort_with (SystemExit 1))
      else
        (let args = [''python'', ''scripts/build.py'', ''notarize_editor2''];
             opts = [''--platform=x86_64-darwin'',
                     ''--notarization-username='' @ py_str notarization_username,
                     ''--notarization-password='' @ py_str notarization_password]
                  @ (if truthy notarization_itc_provider
                     then [''--notarization-itc-provider='' @ py_str notarization_itc_provider]
                     else []);
             cmd = join '' '' (args @ opts)
         in discard (call h cmd True)))"

definition archive_editor2 ::
  "host \<Rightarrow> string option \<Rightarrow> string option \<Rightarrow> string option \<Rightarrow> unit action" where
  "archive_editor2 h channel artifacts platform =
     (let platforms = (case platform of None \<Rightarrow> PLATFORMS_DESKTOP | Some p \<Rightarrow> [p]);
          opts = (if truthy artifacts then [''--engine-artifacts='' @ py_str artifacts] else [])
               @ (if truthy channel then [''--channel='' @ py_str channel] else []);
          opts_string = join '' '' opts
      in for_each (\<lambda>platform.
             discard (call h (''python scripts/build.py archive_editor2 --platform=''
                               @ platform @ '' '' @ opts_string) True))
           platforms)"

definition build_bob :: "host \<Rightarrow> string option \<Rightarrow> unit action" where
  "build_bob h channel =
     (let args = [''python'', ''scripts/build.py'', ''distclean'', ''install_ext'',
                  ''sync_archive'', ''build_bob'', ''archive_bob''];
          opts = (if truthy channel then [''--channel='' @ py_str channel] else []);
          cmd = join '' '' (args @ opts)
      in discard (call h cmd True))"

definition release :: "host \<Rightarrow> string option \<Rightarrow> unit action" where
  "release h channel =
     (let args = [''python'', ''scripts/build.py'', ''release''];
          opts = (if truthy channel then [''--channel='' @ py_str channel] else []);
          cmd = join '' '' (args @ opts)
      in discard (call h cmd True))"

definition build_sdk :: "host \<Rightarrow> string option \<Rightarrow> unit action" where
  "build_sdk h channel =
     (let args = [''python'', ''scripts/build.py'', ''build_sdk''];
          opts = (if truthy channel then [''--channel='' @ py_str channel] else []);
          cmd = join '' '' (args @ opts)
      in discard (call h cmd True))"

definition smoke_test :: "host \<Rightarrow> unit action" where
  "smoke_test h = discard (call h ''python scripts/build.py distclean install_ext smoke_test'' True)"

section \<open>Installing dependencies\<close>

text \<open>
  The \<open>with open(cert_path, "wb")\<close> statement of \<open>setup_keychain\<close>: the file is opened
  first, then the certificate is decoded, then written. Each of the three can raise.
\<close>

definition write_cert :: "host \<Rightarrow> string \<Rightarrow> string option \<Rightarrow> unit action" where
  "write_cert h cert_path keychain_cert t =
     (if \<not> host_open h t cert_path then (Inl (Raised ''IOError'' cert_path), t)
      else
        (let t1 = t @ [OpenFile cert_path]
         in case keychain_cert of
              None \<Rightarrow> (Inl (Raised ''TypeError'' ''decodestring''), t1)
            | Some c \<Rightarrow>
                (case host_decodestring h c of
                   None \<Rightarrow> (Inl (Raised ''binascii.Error'' c), t1)
                 | Some data \<Rightarrow>
                     if host_write h t1 cert_path
                     then (Inr (), t1 @ [WriteFile cert_path data])
                     else (Inl (Raised ''IOError'' cert_path), t1))))"

definition os_remove :: "host \<Rightarrow> string \<Rightarrow> unit action" where
  "os_remove h path t =
     (if host_remove h t path then (Inr (), t @ [RemoveFile path])
      else (Inl (Raised ''OSError'' path), t))"

text \<open>
  \<open>setup_keychain\<close> runs on macOS only, where \<open>os.path.join("ci", "cert.p12")\<close> is
  \<open>ci/cert.p12\<close>.
\<close>

definition setup_keychain :: "host \<Rightarrow> args \<Rightarrow> unit action" where
  "setup_keychain h a =
     (let keychain_pass = ''foobar'';
          keychain_name = ''defold.keychain'';
          cert_path = ''ci/cert.p12'';
          cert_pass = arg_keychain_cert_pass a
      in seq (py_print ''Setting up keychain'')
        (seq (py_print ''Creating keychain'')
        (seq (discard (call h (''security create-keychain -p '' @ keychain_pass @ '' '' @ keychain_name) True))
        (seq (py_print ''Setting keychain as default'')
        (seq (discard (call h (''security default-keychain -s '' @ keychain_name) True))
        (seq (py_print ''Unlock keychain'')
        (seq (discard (call h (''security unlock-keychain -p '' @ keychain_pass @ '' '' @ keychain_name) True))
        (seq (py_print ''Decoding certificate'')
        (seq (write_cert h cert_path (arg_keychain_cert a))
        (seq (py_print ''Importing certificate'')
        (seq (discard (call h (''security import '' @ cert_path @ '' -k '' @ keychain_name
                                @ '' -P '' @ py_str cert_pass @ '' -A'') True))
        (seq (os_remove h cert_path)
        (seq (discard (call h (''security set-key-partition-list -S apple-tool:,apple:,codesign: -s -k ''
                                @ keychain_pass @ '' '' @ keychain_name) True))
        (seq (discard (call h (''security set-keychain-settings '' @ keychain_name) True))
        (seq (discard (call h (''security list-keychains -d user -s '' @ keychain_name) True))
             (py_print ''Done with keychain setup''))))))))))))))))"

definition install :: "host \<Rightarrow> args \<Rightarrow> unit action" where
  "install h a =
     (let system = host_system h
      in seq (py_print (''Installing dependencies for system '' @ [CHR 0x27] @ system @ [CHR 0x27] @ '' ''))
        (if system = ''Linux'' then
           seq (discard (call h ''sudo add-apt-repository ppa:apt-fast/stable'' True))
          (seq (discard (call h ''sudo apt-get update'' False))
          (seq (discard (call h ''echo debconf apt-fast/maxdownloads string 16 | sudo debconf-set-selections'' True))
          (seq (discard (call h ''echo debconf apt-fast/dlflag boolean true | sudo debconf-set-selections'' True))
          (seq (discard (call h ''echo debconf apt-fast/aptmanager string apt-get | sudo debconf-set-selections'' True))
          (seq (discard (call h ''sudo apt-get install -y apt-fast aria2'' True))
          (seq (discard (call h ''sudo apt-get install -y software-properties-common'' True))
               (aptfast h (join '' ''
                  [''libssl-dev'', ''openssl'', ''libtool'', ''autoconf'', ''automake'',
                   ''build-essential'', ''uuid-dev'', ''libxi-dev'', ''libopenal-dev'',
                   ''libgl1-mesa-dev'', ''libglw1-mesa-dev'', ''freeglut3-dev'', ''tofrodos'',
                   ''tree'', ''valgrind'', ''lib32z1'', ''xvfb'']))))))))
         else if system = ''Darwin'' then
           (if truthy (arg_keychain_cert a) then setup_keychain h a else skip)
         else skip))"

section \<open>The branch and the command loop\<close>

definition get_branch :: "host \<Rightarrow> string action" where
  "get_branch h =
     and_then (call h ''git rev-parse --abbrev-ref HEAD'' True) (\<lambda>output.
       let branch = strip output
       in if branch = ''HEAD'' then call h ''git rev-parse HEAD'' True
          else (\<lambda>t. (Inr branch, t)))"

text \<open>
  The body of the loop \<open>for command in args.commands\<close>, with the locals it reads: the
  parsed arguments, the branch, and the build flags of the branch.
\<close>

definition exec_command :: "host \<Rightarrow> args \<Rightarrow> string \<Rightarrow> branch_config \<Rightarrow> string \<Rightarrow> unit action" where
  "exec_command h a branch cfg command =
     (if command = ''engine'' then
        (if \<not> truthy (arg_platform a) then
           abort_with (Raised ''Exception'' ''No --platform specified.'')
         else
           build_engine h (py_str (arg_platform a))
             (arg_with_valgrind a \<or> branch \<in> set [''master'', ''beta''])
             (arg_with_asan a)
             (arg_with_vanilla_lua a)
             (arg_skip_tests a)
             True
             (arg_skip_docs a)
             (arg_skip_builtins a)
             (arg_archive a)
             (engine_channel cfg))
      else if command = ''build-editor'' then
        build_editor2 h (editor_channel cfg) (engine_artifacts cfg) (skip_editor_tests cfg)
      else if command = ''download-editor'' then
        download_editor2 h (editor_channel cfg) (arg_platform a)
      else if command = ''notarize-editor'' then
        notarize_editor2 h (arg_notarization_username a) (arg_notarization_password a)
          (arg_notarization_itc_provider a)
      else if command = ''archive-editor'' then
        archive_editor2 h (editor_channel cfg) (engine_artifacts cfg) (arg_platform a)
      else if command = ''bob'' then build_bob h (engine_channel cfg)
      else if command = ''sdk'' then build_sdk h (engine_channel cfg)
      else if command = ''smoke'' then smoke_test h
      else if command = ''install'' then install h a
      else if command = ''release'' then
        (if make_release cfg then release h (release_channel cfg)
         else py_print (''Branch '' @ [CHR 0x27] @ branch @ [CHR 0x27]
                         @ '' is not configured for automatic release from CI''))
      else py_print (''Unknown command '' @ command))"

text \<open>
  \<open>main\<close> after \<open>parse_args\<close>: the branch is read from git, the build flags are set from
  it, one line is printed, and the commands run in order.
\<close>

definition main :: "host \<Rightarrow> args \<Rightarrow> unit action" where
  "main h a =
     and_then (get_branch h) (\<lambda>branch.
       case configure_build_flags (Some branch) a of
         Inl e \<Rightarrow> abort_with e
       | Inr cfg \<Rightarrow>
           seq (py_print (''Using branch='' @ branch
                          @ '' engine_channel='' @ py_str (engine_channel cfg)
                          @ '' editor_channel='' @ py_str (editor_channel cfg)
                          @ '' engine_artifacts='' @ py_str (engine_artifacts cfg)))
               (for_each (exec_command h a branch cfg) (arg_commands a)))"

section \<open>The archive build step of \<open>waf_resource.py\<close>\<close>

text \<open>
  A waf environment maps a variable to a string or to a list of strings. Reading a
  variable that is not set gives the empty list, and \<open>append_value\<close> extends the list
  of a variable, taking a string value as a list of one element.
\<close>

datatype env_value = Str string | Lst "string list"

type_synonym environment = "string \<rightharpoonup> env_value"

definition env_get :: "environment \<Rightarrow> string \<Rightarrow> env_value" where
  "env_get e var = (case e var of None \<Rightarrow> Lst [] | Some v \<Rightarrow> v)"

fun as_list :: "env_value \<Rightarrow> string list" where
  "as_list (Str s) = [s]"
| "as_list (Lst xs) = xs"

definition append_value :: "environment \<Rightarrow> string \<Rightarrow> string list \<Rightarrow> environment" where
  "append_value e var val = e(var \<mapsto> Lst (as_list (env_get e var) @ val))"

text \<open>
  A task with the attributes that \<open>apply_barchive_after\<close> sets. File nodes are written
  as their paths, and a task that must run first as its position in the generator's
  \<open>tasks\<close>.
\<close>

record task =
  task_type :: string
  inputs :: "string list"
  outputs :: "string list"
  run_after :: "nat list"
  env :: environment

text \<open>
  The task generator (\<open>self\<close>). \<open>apply_barchive_before\<close> gives the three attributes their
  defaults where the build script leaves them out: \<open>None\<close>, \<open>None\<close> and \<open>False\<close>.
\<close>

record task_gen =
  source_root :: "string option"
  resource_name :: "string option"
  use_compression :: bool
  tasks :: "task list"
  gen_env :: environment

text \<open>What the function asks of \<open>os\<close>, \<open>os.path\<close> and the generator's directory node.\<close>

record build_host =
  os_pathsep :: string
  os_path_abspath :: "string \<Rightarrow> string"
  os_path_join :: "string list \<Rightarrow> string"
  path_bldpath :: string
  path_find_or_declare :: "string \<Rightarrow> string"

definition CONST_ARCHIVEBUILDER :: string where
  "CONST_ARCHIVEBUILDER = ''${JAVA} -classpath ${CLASSPATH} com.dynamo.bob.archive.ArchiveBuilder''"

definition CONST_ARCHIVEBUILDER_ARGS :: string where
  "CONST_ARCHIVEBUILDER_ARGS =
     ''${ARCHIVEBUILDER_ROOT} ${ARCHIVEBUILDER_OUTPUT} ${ARCHIVEBUILDER_FLAGS} ${SRC}''"

text \<open>
  \<open>apply_barchive_after\<close> logs an error and registers nothing when an attribute is
  missing (the logged message is returned with the unchanged generator). Otherwise
  \<open>create_task\<close> gives the generator a new task \<open>builder\<close>, at the end of \<open>tasks\<close>, with a
  copy of the generator's environment; the loops and assignments then fill it in.
  \<open>self.env['DYNAMO_HOME'] + '/share/...'\<close> raises when the variable is not a string:
  by then the task is in \<open>tasks\<close>, with its inputs and outputs, and its environment is
  still the copy. The result of a raise is the exception with the generator as it is at
  that point.
\<close>

definition apply_barchive_after ::
  "build_host \<Rightarrow> task_gen \<Rightarrow> abort \<times> task_gen + string list \<times> task_gen" where
  "apply_barchive_after os self =
     (case source_root self of
        None \<Rightarrow> Inr ([''source_root is not specified!''], self)
      | Some arg_root \<Rightarrow>
     (case resource_name self of
        None \<Rightarrow> Inr ([''resource_name is not specified!''], self)
      | Some name \<Rightarrow>
         (let others = tasks self;
              builder = \<lparr>task_type = ''resource_archive'',
                         inputs = concat (map outputs others),
                         outputs =
                           map (\<lambda>extension. path_find_or_declare os (name @ ''.'' @ extension))
                             [''dmanifest'', ''arci'', ''arcd'', ''public'', ''manifest_hash''],
                         run_after = [0..<length others],
                         env = gen_env self\<rparr>
          in case env_get (gen_env self) ''DYNAMO_HOME'' of
               Lst xs \<Rightarrow>
                 Inl (Raised ''TypeError'' ''DYNAMO_HOME'', self\<lparr>tasks := others @ [builder]\<rparr>)
             | Str home \<Rightarrow>
                 (let classpath = [home @ ''/share/java/bob-light.jar'', ''default/src/java''];
                      env1 = (env builder)(''CLASSPATH'' \<mapsto> Str (join (os_pathsep os) classpath));
                      arg_output = os_path_abspath os
                                     (os_path_join os [''build'', path_bldpath os, name]);
                      env2 = append_value env1 ''ARCHIVEBUILDER_ROOT'' [arg_root];
                      env3 = append_value env2 ''ARCHIVEBUILDER_OUTPUT'' [arg_output];
                      env4 = append_value env3 ''ARCHIVEBUILDER_FLAGS'' [''-m''];
                      env5 = (if use_compression self
                              then append_value env4 ''ARCHIVEBUILDER_FLAGS'' [''-c'']
                              else env4)
                  in Inr ([], self\<lparr>tasks := others @ [builder\<lparr>env := env5\<rparr>]\<rparr>)))))"

section \<open>Sample inputs\<close>

text \<open>A command line with no option set, and a host on branch \<open>dev\<close> where every command succeeds.\<close>

definition args_default :: args where
  "args_default =
     \<lparr>arg_commands = [''release''], arg_platform = None, arg_with_asan = False,
      arg_with_valgrind = False, arg_with_vanilla_lua = False, arg_archive = False,
      arg_skip_tests = False, arg_skip_builtins = False, arg_skip_docs = False,
      arg_engine_artifacts = None, arg_keychain_cert = None, arg_keychain_cert_pass = None,
      arg_notarization_username = None, arg_notarization_password = None,
      arg_notarization_itc_provider = None\<rparr>"

fun popen_on_dev :: "trace \<Rightarrow> string \<Rightarrow> string \<times> int" where
  "popen_on_dev t cmd =
     (if cmd = ''git rev-parse --abbrev-ref HEAD'' then (''dev'' @ [CHR 0x0A], 0) else ([], 0))"

fun always_ok :: "trace \<Rightarrow> string \<Rightarrow> bool" where
  "always_ok t path = True"

definition host_dev :: host where
  "host_dev =
     \<lparr>host_system = ''Linux'', host_popen = popen_on_dev, host_open = always_ok,
      host_write = always_ok, host_remove = always_ok, host_decodestring = Some\<rparr>"

text \<open>A generator with a source root and a name, compression left at its default.\<close>

fun abspath_in_work :: "string \<Rightarrow> string" where
  "abspath_in_work p = ''/work/'' @ p"

definition build_host_posix :: build_host where
  "build_host_posix =
     \<lparr>os_pathsep = '':'', os_path_abspath = abspath_in_work, os_path_join = join ''/'',
      path_bldpath = ''default/content'', path_find_or_declare = id\<rparr>"

definition gen_uncompressed :: task_gen where
  "gen_uncompressed =
     \<lparr>source_root = Some ''content'', resource_name = Some ''game'', use_compression = False,
      tasks = [], gen_env = [''DYNAMO_HOME'' \<mapsto> Str ''/opt/dynamo'']\<rparr>"

section \<open>Properties of the build flags\<close>

text \<open>The guard \<open>branch and ...\<close> keeps \<open>startswith\<close> from being called on \<open>None\<close>.\<close>

lemma is_defedit_value:
  "is_defedit b = Inr (case b of None \<Rightarrow> False | Some s \<Rightarrow> startswith s ''DEFEDIT-'')"
  by (cases b) (auto simp: is_defedit_def startswith_method_def)

lemma is_defedit_Some: "is_defedit (Some s) = Inr (startswith s ''DEFEDIT-'')"
  by (simp add: is_defedit_value)

lemma defedit_not_named:
  "startswith s ''DEFEDIT-'' \<Longrightarrow>
   s \<noteq> ''master'' \<and> s \<noteq> ''beta'' \<and> s \<noteq> ''dev'' \<and> s \<noteq> ''editor-dev''"
  by auto

lemma py_or_override: "s \<noteq> [] \<Longrightarrow> py_or (Some s) d = Some s"
  by (simp add: py_or_def)

lemma py_or_absent: "py_or None d = Some d"
  by (simp add: py_or_def)

text \<open>
  C1. Each of the six kinds of branch name gets the row of the table: \<open>master\<close>, \<open>beta\<close>,
  \<open>dev\<close>, \<open>editor-dev\<close>, a name starting with \<open>DEFEDIT-\<close>, and any other name. The
  artifact source is the default of the row (\<open>archived\<close>, or \<open>archived-stable\<close> for
  \<open>DEFEDIT-\<close>) unless the caller gives one, and on \<open>editor-dev\<close> it is whatever the caller
  gave, \<open>None\<close> included. On \<open>beta\<close> and \<open>dev\<close> the release channel is the engine channel,
  on \<open>editor-dev\<close> the editor channel. The rows cannot overlap: a name starting with
  \<open>DEFEDIT-\<close> is none of the four exact names.
\<close>

theorem branch_config_table:
  "configure_build_flags (Some ''master'') a =
     Inr \<lparr>engine_channel = Some ''stable'', editor_channel = Some ''editor-alpha'',
          release_channel = Some ''editor-stable'', make_release = False,
          engine_artifacts = py_or (arg_engine_artifacts a) ''archived'',
          skip_editor_tests = False\<rparr>
   \<and> configure_build_flags (Some ''beta'') a =
     Inr \<lparr>engine_channel = Some ''beta'', editor_channel = Some ''beta'',
          release_channel = Some ''beta'', make_release = True,
          engine_artifacts = py_or (arg_engine_artifacts a) ''archived'',
          skip_editor_tests = False\<rparr>
   \<and> configure_build_flags (Some ''dev'') a =
     Inr \<lparr>engine_channel = Some ''alpha'', editor_channel = Some ''alpha'',
          release_channel = Some ''alpha'', make_release = True,
          engine_artifacts = py_or (arg_engine_artifacts a) ''archived'',
          skip_editor_tests = False\<rparr>
   \<and> configure_build_flags (Some ''editor-dev'') a =
     Inr \<lparr>engine_channel = None, editor_channel = Some ''editor-alpha'',
          release_channel = Some ''editor-alpha'', make_release = True,
          engine_artifacts = arg_engine_artifacts a,
          skip_editor_tests = False\<rparr>
   \<and> (startswith s ''DEFEDIT-'' \<longrightarrow>
        configure_build_flags (Some s) a =
          Inr \<lparr>engine_channel = None, editor_channel = None,
               release_channel = None, make_release = False,
               engine_artifacts = py_or (arg_engine_artifacts a) ''archived-stable'',
               skip_editor_tests = False\<rparr>)
   \<and> (t \<noteq> ''master'' \<and> t \<noteq> ''beta'' \<and> t \<noteq> ''dev'' \<and> t \<noteq> ''editor-dev''
        \<and> \<not> startswith t ''DEFEDIT-'' \<longrightarrow>
        configure_build_flags (Some t) a =
          Inr \<lparr>engine_channel = Some ''dev'', editor_channel = None,
               release_channel = None, make_release = False,
               engine_artifacts = py_or (arg_engine_artifacts a) ''archived'',
               skip_editor_tests = True\<rparr>)"
proof -
  have named: "configure_build_flags (Some ''master'') a =
     Inr \<lparr>engine_channel = Some ''stable'', editor_channel = Some ''editor-alpha'',
          release_channel = Some ''editor-stable'', make_release = False,
          engine_artifacts = py_or (arg_engine_artifacts a) ''archived'',
          skip_editor_tests = False\<rparr>"
    "configure_build_flags (Some ''beta'') a =
     Inr \<lparr>engine_channel = Some ''beta'', editor_channel = Some ''beta'',
          release_channel = Some ''beta'', make_release = True,
          engine_artifacts = py_or (arg_engine_artifacts a) ''archived'',
          skip_editor_tests = False\<rparr>"
    "configure_build_flags (Some ''dev'') a =
     Inr \<lparr>engine_channel = Some ''alpha'', editor_channel = Some ''alpha'',
          release_channel = Some ''alpha'', make_release = True,
          engine_artifacts = py_or (arg_engine_artifacts a) ''archived'',
          skip_editor_tests = False\<rparr>"
    "configure_build_flags (Some ''editor-dev'') a =
     Inr \<lparr>engine_channel = None, editor_channel = Some ''editor-alpha'',
          release_channel = Some ''editor-alpha'', make_release = True,
          engine_artifacts = arg_engine_artifacts a,
          skip_editor_tests = False\<rparr>"
    by (simp_all add: configure_build_flags_def)
  have defedit: "configure_build_flags (Some s) a =
          Inr \<lparr>engine_channel = None, editor_channel = None,
               release_channel = None, make_release = False,
               engine_artifacts = py_or (arg_engine_artifacts a) ''archived-stable'',
               skip_editor_tests = False\<rparr>" if "startswith s ''DEFEDIT-''"
    using that defedit_not_named [OF that]
    by (simp add: configure_build_flags_def is_defedit_Some)
  have other: "configure_build_flags (Some t) a =
          Inr \<lparr>engine_channel = Some ''dev'', editor_channel = None,
               release_channel = None, make_release = False,
               engine_artifacts = py_or (arg_engine_artifacts a) ''archived'',
               skip_editor_tests = True\<rparr>"
    if "t \<noteq> ''master''" "t \<noteq> ''beta''" "t \<noteq> ''dev''" "t \<noteq> ''editor-dev''"
       "\<not> startswith t ''DEFEDIT-''"
    using that by (simp add: configure_build_flags_def is_defedit_Some)
  from named defedit other show ?thesis by blast
qed

text \<open>The table at a command line without override: the defaults appear as such.\<close>

theorem branch_config_table_witness:
  "startswith ''DEFEDIT-1234'' ''DEFEDIT-''
   \<and> configure_build_flags (Some ''DEFEDIT-1234'') args_default =
       Inr \<lparr>engine_channel = None, editor_channel = None,
            release_channel = None, make_release = False,
            engine_artifacts = Some ''archived-stable'',
            skip_editor_tests = False\<rparr>
   \<and> \<not> startswith ''release/foo'' ''DEFEDIT-''
   \<and> configure_build_flags (Some ''release/foo'') args_default =
       Inr \<lparr>engine_channel = Some ''dev'', editor_channel = None,
            release_channel = None, make_release = False,
            engine_artifacts = Some ''archived'',
            skip_editor_tests = True\<rparr>
   \<and> configure_build_flags (Some ''master'') args_default =
       Inr \<lparr>engine_channel = Some ''stable'', editor_channel = Some ''editor-alpha'',
          release_channel = Some ''editor-stable'', make_release = False,
          engine_artifacts = Some ''archived'',
          skip_editor_tests = False\<rparr>"
  using branch_config_table [of args_default "''DEFEDIT-1234''" "''release/foo''"]
  by (simp add: args_default_def py_or_def)

text \<open>
  C2, as stated, fails: an override given as the empty string is false for \<open>or\<close>, and
  on \<open>master\<close> the default \<open>archived\<close> is used in its place.
\<close>

theorem override_empty_string_loses:
  "arg_engine_artifacts (args_default\<lparr>arg_engine_artifacts := Some ''''\<rparr>) = Some ''''
   \<and> map_sum id engine_artifacts
        (configure_build_flags (Some ''master'') (args_default\<lparr>arg_engine_artifacts := Some ''''\<rparr>))
       = Inr (Some ''archived'')"
  by (simp add: configure_build_flags_def py_or_def args_default_def)

text \<open>
  C2, amended. On every branch, absent ones included, a non-empty override is the
  resolved artifact source.
\<close>

theorem nonempty_override_wins:
  assumes "arg_engine_artifacts a = Some s" and "s \<noteq> []"
  shows "map_sum id engine_artifacts (configure_build_flags b a) = Inr (Some s)"
  using assms
  by (simp add: configure_build_flags_def is_defedit_value py_or_override split: bool.splits)

theorem nonempty_override_wins_witness:
  "arg_engine_artifacts (args_default\<lparr>arg_engine_artifacts := Some ''local''\<rparr>) = Some ''local''
   \<and> ''local'' \<noteq> []
   \<and> map_sum id engine_artifacts
        (configure_build_flags (Some ''DEFEDIT-1234'') (args_default\<lparr>arg_engine_artifacts := Some ''local''\<rparr>))
       = Inr (Some ''local'')"
  using nonempty_override_wins
          [of "args_default\<lparr>arg_engine_artifacts := Some ''local''\<rparr>" "''local''" "Some ''DEFEDIT-1234''"]
  by simp

text \<open>
  C3. A branch name that is none of \<open>master\<close>, \<open>beta\<close>, \<open>dev\<close>, \<open>editor-dev\<close> and does not
  start with \<open>DEFEDIT-\<close> is configured with no release and with the editor tests skipped.
\<close>

theorem other_branch_no_release_skip_tests:
  assumes "s \<noteq> ''master''" and "s \<noteq> ''beta''" and "s \<noteq> ''dev''" and "s \<noteq> ''editor-dev''"
    and "\<not> startswith s ''DEFEDIT-''"
  shows "\<exists>cfg. configure_build_flags (Some s) a = Inr cfg
               \<and> make_release cfg = False \<and> skip_editor_tests cfg = True"
  using assms by (simp add: configure_build_flags_def is_defedit_value)

theorem other_branch_no_release_skip_tests_witness:
  "''release/foo'' \<noteq> ''master'' \<and> ''release/foo'' \<noteq> ''beta'' \<and> ''release/foo'' \<noteq> ''dev''
   \<and> ''release/foo'' \<noteq> ''editor-dev'' \<and> \<not> startswith ''release/foo'' ''DEFEDIT-''
   \<and> (\<exists>cfg. configure_build_flags (Some ''release/foo'') args_default = Inr cfg
               \<and> make_release cfg = False \<and> skip_editor_tests cfg = True)"
  using other_branch_no_release_skip_tests [of "''release/foo''" args_default]
  by simp

text \<open>
  C4. An absent or empty branch name raises nothing and gets the last row of the table:
  engine channel \<open>dev\<close>, no editor channel, no release, editor tests skipped, and the
  artifact source \<open>archived\<close> unless the caller overrides it.
\<close>

theorem empty_or_absent_branch:
  assumes "branch = None \<or> branch = Some ''''"
  shows "configure_build_flags branch a =
           Inr \<lparr>engine_channel = Some ''dev'', editor_channel = None,
                release_channel = None, make_release = False,
                engine_artifacts = py_or (arg_engine_artifacts a) ''archived'',
                skip_editor_tests = True\<rparr>"
  using assms by (auto simp: configure_build_flags_def is_defedit_value)

theorem empty_or_absent_branch_witness:
  "configure_build_flags None args_default =
           Inr \<lparr>engine_channel = Some ''dev'', editor_channel = None,
                release_channel = None, make_release = False,
                engine_artifacts = Some ''archived'',
                skip_editor_tests = True\<rparr>
   \<and> configure_build_flags (Some '''') args_default =
           Inr \<lparr>engine_channel = Some ''dev'', editor_channel = None,
                release_channel = None, make_release = False,
                engine_artifacts = Some ''archived'',
                skip_editor_tests = True\<rparr>"
  using empty_or_absent_branch [of None args_default]
        empty_or_absent_branch [of "Some ''''" args_default]
  by (simp add: py_or_absent args_default_def)

text \<open>
  C9. The build flags are a function of the branch name and of the artifact override
  alone: two command lines that agree on \<open>--engine-artifacts\<close> give the same flags on
  the same branch, whatever their other options. The block has no trace argument and
  returns none: it prints nothing and spawns nothing.
\<close>

theorem config_depends_on_branch_and_override_only:
  assumes "arg_engine_artifacts a1 = arg_engine_artifacts a2"
  shows "configure_build_flags branch a1 = configure_build_flags branch a2"
  using assms by (simp add: configure_build_flags_def split: sum.splits bool.splits)

theorem config_depends_on_branch_and_override_only_witness:
  "arg_engine_artifacts (args_default\<lparr>arg_commands := [''engine'', ''bob''], arg_platform := Some ''js-web'', arg_with_valgrind := True\<rparr>)
     = arg_engine_artifacts args_default
   \<and> configure_build_flags (Some ''beta'')
        (args_default\<lparr>arg_commands := [''engine'', ''bob''], arg_platform := Some ''js-web'', arg_with_valgrind := True\<rparr>)
     = configure_build_flags (Some ''beta'') args_default"
  using config_depends_on_branch_and_override_only
          [of "args_default\<lparr>arg_commands := [''engine'', ''bob''], arg_platform := Some ''js-web'', arg_with_valgrind := True\<rparr>"
              args_default "Some ''beta''"]
  by simp

section \<open>Properties of the command loop\<close>

text \<open>
  A loop over \<open>xs @ ys\<close> runs \<open>xs\<close> and, unless that aborted, \<open>ys\<close> on the trace it left.
\<close>

lemma for_each_append:
  "for_each body (xs @ ys) t =
     (case for_each body xs t of (Inl e, t') \<Rightarrow> (Inl e, t') | (Inr u, t') \<Rightarrow> for_each body ys t')"
proof (induction xs arbitrary: t)
  case Nil
  show ?case by simp
next
  case (Cons x xs)
  show ?case
  proof (cases "body x t")
    case (Pair r t1)
    then show ?thesis using Cons.IH [of t1] by (cases r) simp_all
  qed
qed

lemma for_each_step:
  "for_each body (xs @ c # ys) t =
     (case for_each body xs t of
        (Inl e, t') \<Rightarrow> (Inl e, t')
      | (Inr u, t') \<Rightarrow>
          (case body c t' of (Inl e, t'') \<Rightarrow> (Inl e, t'') | (Inr u, t'') \<Rightarrow> for_each body ys t''))"
  by (simp add: for_each_append split: prod.splits sum.splits)

lemma setup_keychain_ignores_commands:
  "setup_keychain h (a\<lparr>arg_commands := cs\<rparr>) = setup_keychain h a"
  by (simp add: setup_keychain_def)

lemma install_ignores_commands:
  "install h (a\<lparr>arg_commands := cs\<rparr>) = install h a"
  by (simp add: install_def Let_def setup_keychain_ignores_commands cong: if_cong)

lemma exec_command_ignores_commands:
  "exec_command h (a\<lparr>arg_commands := cs\<rparr>) = exec_command h a"
  by (intro ext) (simp add: exec_command_def install_ignores_commands cong: if_cong)

lemma configure_ignores_commands:
  "configure_build_flags b (a\<lparr>arg_commands := cs\<rparr>) = configure_build_flags b a"
  by (simp add: configure_build_flags_def split: sum.splits bool.splits)

lemma main_unfold:
  "main h a t =
     (case get_branch h t of
        (Inl e, t1) \<Rightarrow> (Inl e, t1)
      | (Inr branch, t1) \<Rightarrow>
          (case configure_build_flags (Some branch) a of
             Inl e \<Rightarrow> (Inl e, t1)
           | Inr cfg \<Rightarrow>
               for_each (exec_command h a branch cfg) (arg_commands a)
                 (t1 @ [Print (''Using branch='' @ branch
                          @ '' engine_channel='' @ py_str (engine_channel cfg)
                          @ '' editor_channel='' @ py_str (editor_channel cfg)
                          @ '' engine_artifacts='' @ py_str (engine_artifacts cfg))])))"
  by (simp add: main_def and_then_def seq_def py_print_def abort_with_def
           split: prod.splits sum.splits)

lemma engine_raises:
  "\<not> truthy (arg_platform a) \<Longrightarrow>
   exec_command h a branch cfg ''engine'' t = (Inl (Raised ''Exception'' ''No --platform specified.''), t)"
  by (simp add: exec_command_def abort_with_def)

text \<open>
  C5. With \<open>make_release\<close> false, as on \<open>master\<close>, on \<open>DEFEDIT-\<close> branches and on
  all other branches, the \<open>release\<close> command adds one printed line to the trace and
  nothing else: no process is spawned, nothing is raised, and the loop goes on with the
  commands after it.
\<close>

theorem release_without_make_release:
  assumes "\<not> make_release cfg"
  shows "exec_command h a branch cfg ''release'' t =
           (Inr (), t @ [Print (''Branch '' @ [CHR 0x27] @ branch @ [CHR 0x27]
                                 @ '' is not configured for automatic release from CI'')])
       \<and> for_each (exec_command h a branch cfg) (xs @ ''release'' # ys) t =
           (case for_each (exec_command h a branch cfg) xs t of
              (Inl e, t') \<Rightarrow> (Inl e, t')
            | (Inr u, t') \<Rightarrow>
                for_each (exec_command h a branch cfg) ys
                  (t' @ [Print (''Branch '' @ [CHR 0x27] @ branch @ [CHR 0x27]
                                 @ '' is not configured for automatic release from CI'')]))"
proof -
  have step: "exec_command h a branch cfg ''release'' s =
           (Inr (), s @ [Print (''Branch '' @ [CHR 0x27] @ branch @ [CHR 0x27]
                                 @ '' is not configured for automatic release from CI'')])" for s
    using assms by (simp add: exec_command_def py_print_def)
  show ?thesis
    by (simp add: for_each_step step split: prod.splits sum.splits)
qed

theorem release_without_make_release_witness:
  "configure_build_flags (Some ''master'') args_default =
     Inr \<lparr>engine_channel = Some ''stable'', editor_channel = Some ''editor-alpha'',
          release_channel = Some ''editor-stable'', make_release = False,
          engine_artifacts = Some ''archived'', skip_editor_tests = False\<rparr>
   \<and> for_each
        (exec_command host_dev args_default ''master''
           \<lparr>engine_channel = Some ''stable'', editor_channel = Some ''editor-alpha'',
            release_channel = Some ''editor-stable'', make_release = False,
            engine_artifacts = Some ''archived'', skip_editor_tests = False\<rparr>)
        [''release''] []
      = (Inr (), [Print (''Branch '' @ [CHR 0x27] @ ''master'' @ [CHR 0x27]
                          @ '' is not configured for automatic release from CI'')])"
  using release_without_make_release
     [of "\<lparr>engine_channel = Some ''stable'', editor_channel = Some ''editor-alpha'',
            release_channel = Some ''editor-stable'', make_release = False,
            engine_artifacts = Some ''archived'', skip_editor_tests = False\<rparr>"
         host_dev args_default "''master''" "[]" "[]" "[]"]
  by (simp add: configure_build_flags_def py_or_def args_default_def)

text \<open>
  C6, as stated, fails: \<open>main\<close> asks git for the branch before it looks at any command,
  so with \<open>engine\<close> as the only command and no \<open>--platform\<close> a process has been spawned
  by the time the exception is raised.
\<close>

theorem git_runs_before_platform_check:
  "''engine'' \<in> set (arg_commands (args_default\<lparr>arg_commands := [''engine'']\<rparr>))
   \<and> arg_platform (args_default\<lparr>arg_commands := [''engine'']\<rparr>) = None
   \<and> main host_dev (args_default\<lparr>arg_commands := [''engine'']\<rparr>) [] =
       (Inl (Raised ''Exception'' ''No --platform specified.''),
        [Print ''git rev-parse --abbrev-ref HEAD'',
         Spawn ''git rev-parse --abbrev-ref HEAD'',
         Print ''dev'',
         Print ''Using branch=dev engine_channel=alpha editor_channel=alpha engine_artifacts=archived''])"
  by (simp add: main_unfold get_branch_def and_then_def call_def host_dev_def args_default_def
        strip_def rstrip_def is_space_def configure_build_flags_def py_or_def
        exec_command_def abort_with_def)

text \<open>
  C6, amended. With no \<open>--platform\<close> (or an empty one) the \<open>engine\<close> command raises
  \<open>No --platform specified.\<close> and leaves the trace as it found it: it spawns nothing.
  A run whose commands are \<open>xs\<close>, then \<open>engine\<close>, then \<open>ys\<close> behaves as the run of \<open>xs\<close>
  alone, except that where that run ends normally this one ends with the exception, on
  the same trace; \<open>ys\<close> never runs, and the run never ends normally.
\<close>

theorem engine_without_platform:
  assumes "arg_commands a = xs @ ''engine'' # ys" and "\<not> truthy (arg_platform a)"
  shows "exec_command h a branch cfg ''engine'' t =
           (Inl (Raised ''Exception'' ''No --platform specified.''), t)
       \<and> main h a t =
           (case main h (a\<lparr>arg_commands := xs\<rparr>) t of
              (Inl e, t') \<Rightarrow> (Inl e, t')
            | (Inr u, t') \<Rightarrow> (Inl (Raised ''Exception'' ''No --platform specified.''), t'))
       \<and> fst (main h a t) \<noteq> Inr ()"
proof -
  have step: "exec_command h a br c ''engine'' s =
           (Inl (Raised ''Exception'' ''No --platform specified.''), s)" for br c s
    using assms(2) by (rule engine_raises)
  have m: "main h a t =
           (case main h (a\<lparr>arg_commands := xs\<rparr>) t of
              (Inl e, t') \<Rightarrow> (Inl e, t')
            | (Inr u, t') \<Rightarrow> (Inl (Raised ''Exception'' ''No --platform specified.''), t'))"
    by (simp add: main_unfold [of h a] main_unfold [of h "a\<lparr>arg_commands := xs\<rparr>"]
          assms(1) for_each_step step exec_command_ignores_commands configure_ignores_commands
          split: prod.splits sum.splits)
  have "fst (main h a t) \<noteq> Inr ()"
    by (subst m) (simp split: prod.splits sum.splits)
  with step m show ?thesis by blast
qed

theorem engine_without_platform_witness:
  "arg_commands (args_default\<lparr>arg_commands := [''frob'', ''engine'', ''bob'']\<rparr>)
     = [''frob''] @ ''engine'' # [''bob'']
   \<and> \<not> truthy (arg_platform (args_default\<lparr>arg_commands := [''frob'', ''engine'', ''bob'']\<rparr>))
   \<and> main host_dev (args_default\<lparr>arg_commands := [''frob'', ''engine'', ''bob'']\<rparr>) [] =
       (Inl (Raised ''Exception'' ''No --platform specified.''),
        [Print ''git rev-parse --abbrev-ref HEAD'',
         Spawn ''git rev-parse --abbrev-ref HEAD'',
         Print ''dev'',
         Print ''Using branch=dev engine_channel=alpha editor_channel=alpha engine_artifacts=archived'',
         Print ''Unknown command frob''])"
  using engine_without_platform
     [of "args_default\<lparr>arg_commands := [''frob'', ''engine'', ''bob'']\<rparr>" "[''frob'']" "[''bob'']"
         host_dev "''dev''"
         "\<lparr>engine_channel = Some ''alpha'', editor_channel = Some ''alpha'',
           release_channel = Some ''alpha'', make_release = True,
           engine_artifacts = Some ''archived'', skip_editor_tests = False\<rparr>" "[]"]
  by (simp add: main_unfold get_branch_def and_then_def call_def host_dev_def args_default_def
        strip_def rstrip_def is_space_def configure_build_flags_def py_or_def
        exec_command_def py_print_def)

text \<open>
  C7. A command outside the ten known names adds the line \<open>Unknown command\<close> with its
  name to the trace, and nothing else; it does not abort, and the loop goes on with the
  commands after it.
\<close>

theorem unknown_command_reported:
  assumes "c \<notin> {''engine'', ''build-editor'', ''download-editor'', ''notarize-editor'',
                 ''archive-editor'', ''bob'', ''sdk'', ''smoke'', ''install'', ''release''}"
  shows "exec_command h a branch cfg c t = (Inr (), t @ [Print (''Unknown command '' @ c)])
       \<and> for_each (exec_command h a branch cfg) (xs @ c # ys) t =
           (case for_each (exec_command h a branch cfg) xs t of
              (Inl e, t') \<Rightarrow> (Inl e, t')
            | (Inr u, t') \<Rightarrow>
                for_each (exec_command h a branch cfg) ys (t' @ [Print (''Unknown command '' @ c)]))"
proof -
  have step: "exec_command h a branch cfg c s = (Inr (), s @ [Print (''Unknown command '' @ c)])" for s
    using assms by (simp add: exec_command_def py_print_def)
  show ?thesis
    by (simp add: for_each_step step split: prod.splits sum.splits)
qed

theorem unknown_command_reported_witness:
  "''frob'' \<notin> {''engine'', ''build-editor'', ''download-editor'', ''notarize-editor'',
                 ''archive-editor'', ''bob'', ''sdk'', ''smoke'', ''install'', ''release''}
   \<and> for_each
        (exec_command host_dev args_default ''topic''
           \<lparr>engine_channel = Some ''dev'', editor_channel = None,
            release_channel = None, make_release = False,
            engine_artifacts = Some ''archived'', skip_editor_tests = True\<rparr>)
        [''frob'', ''release''] []
      = (Inr (), [Print ''Unknown command frob'',
                  Print (''Branch '' @ [CHR 0x27] @ ''topic'' @ [CHR 0x27]
                          @ '' is not configured for automatic release from CI'')])"
  using unknown_command_reported
     [of "''frob''" host_dev args_default "''topic''"
         "\<lparr>engine_channel = Some ''dev'', editor_channel = None,
            release_channel = None, make_release = False,
            engine_artifacts = Some ''archived'', skip_editor_tests = True\<rparr>"
         "[]" "[]" "[''release'']"]
  by (simp add: exec_command_def py_print_def)

text \<open>
  C10. When the \<open>engine\<close> command runs (a platform is given), the engine is built with
  valgrind on branch \<open>master\<close> and on branch \<open>beta\<close>, whatever the caller's
  \<open>--with-valgrind\<close>; on any other branch, with the caller's flag.
\<close>

theorem engine_valgrind_by_branch:
  assumes "truthy (arg_platform a)"
  shows "(branch = ''master'' \<or> branch = ''beta'' \<longrightarrow>
            exec_command h a branch cfg ''engine'' =
              build_engine h (py_str (arg_platform a)) True (arg_with_asan a)
                (arg_with_vanilla_lua a) (arg_skip_tests a) True (arg_skip_docs a)
                (arg_skip_builtins a) (arg_archive a) (engine_channel cfg))
       \<and> (branch \<noteq> ''master'' \<and> branch \<noteq> ''beta'' \<longrightarrow>
            exec_command h a branch cfg ''engine'' =
              build_engine h (py_str (arg_platform a)) (arg_with_valgrind a) (arg_with_asan a)
                (arg_with_vanilla_lua a) (arg_skip_tests a) True (arg_skip_docs a)
                (arg_skip_builtins a) (arg_archive a) (engine_channel cfg))"
  using assms by (auto simp: exec_command_def)

text \<open>On \<open>master\<close>, without \<open>--with-valgrind\<close>, the command line still asks waf for valgrind.\<close>

theorem engine_valgrind_by_branch_witness:
  "truthy (arg_platform (args_default\<lparr>arg_platform := Some ''x86_64-linux''\<rparr>))
   \<and> arg_with_valgrind (args_default\<lparr>arg_platform := Some ''x86_64-linux''\<rparr>) = False
   \<and> exec_command host_dev (args_default\<lparr>arg_platform := Some ''x86_64-linux''\<rparr>) ''master''
        \<lparr>engine_channel = Some ''stable'', editor_channel = Some ''editor-alpha'',
         release_channel = Some ''editor-stable'', make_release = False,
         engine_artifacts = Some ''archived'', skip_editor_tests = False\<rparr> ''engine'' []
     = (Inr (),
        [Print ''python scripts/build.py distclean install_ext build_engine --platform=x86_64-linux --channel=stable --skip-codesign -- --with-valgrind'',
         Spawn ''python scripts/build.py distclean install_ext build_engine --platform=x86_64-linux --channel=stable --skip-codesign -- --with-valgrind''])"
  using engine_valgrind_by_branch
     [of "args_default\<lparr>arg_platform := Some ''x86_64-linux''\<rparr>" "''master''" host_dev
         "\<lparr>engine_channel = Some ''stable'', editor_channel = Some ''editor-alpha'',
         release_channel = Some ''editor-stable'', make_release = False,
         engine_artifacts = Some ''archived'', skip_editor_tests = False\<rparr>"]
  by (simp add: args_default_def build_engine_def discard_def and_then_def call_def host_dev_def)

section \<open>Properties of the archive build step\<close>

lemma append_value_same:
  "env_get (append_value e var val) var = Lst (as_list (env_get e var) @ val)"
  by (simp add: append_value_def env_get_def)

lemma append_value_other:
  "var' \<noteq> var \<Longrightarrow> env_get (append_value e var val) var' = env_get e var'"
  by (simp add: append_value_def env_get_def)

lemma env_get_upd_other:
  "var' \<noteq> var \<Longrightarrow> env_get (e(var \<mapsto> v)) var' = env_get e var'"
  by (simp add: env_get_def)

text \<open>
  C8, as stated, fails: with \<open>use_compression\<close> false, its default, the registered task
  gets the flag \<open>-m\<close> alone.
\<close>

theorem uncompressed_archive_has_no_c_flag:
  "use_compression gen_uncompressed = False
   \<and> (case apply_barchive_after build_host_posix gen_uncompressed of
        Inl e \<Rightarrow> None
      | Inr (msgs, g) \<Rightarrow>
          Some (msgs, map task_type (tasks g),
                env_get (env (last (tasks g))) ''ARCHIVEBUILDER_FLAGS''))
     = Some ([], [''resource_archive''], Lst [''-m''])
   \<and> ''-c'' \<notin> set [''-m'']"
  by (simp add: apply_barchive_after_def gen_uncompressed_def build_host_posix_def env_get_def
        append_value_def)

text \<open>
  C8, amended. When the generator names a source root and a resource, one
  \<open>resource_archive\<close> task is registered. When \<open>DYNAMO_HOME\<close> is a string, the environment
  of the task gets the source root, the output path under \<open>build\<close>, and the flags appended
  to what the generator's environment held: \<open>-m\<close> always, \<open>-c\<close> after it exactly when
  \<open>use_compression\<close> is set. When \<open>DYNAMO_HOME\<close> is not a string, the function raises
  \<open>TypeError\<close> with the task registered and nothing appended: the environment of the task
  is the generator's.
\<close>

theorem archive_builder_arguments:
  assumes "source_root self = Some root" and "resource_name self = Some name"
  shows "case env_get (gen_env self) ''DYNAMO_HOME'' of
           Str home \<Rightarrow>
             (\<exists>g builder.
                 apply_barchive_after os self = Inr ([], g)
               \<and> tasks g = tasks self @ [builder]
               \<and> task_type builder = ''resource_archive''
               \<and> env_get (env builder) ''ARCHIVEBUILDER_ROOT''
                   = Lst (as_list (env_get (gen_env self) ''ARCHIVEBUILDER_ROOT'') @ [root])
               \<and> env_get (env builder) ''ARCHIVEBUILDER_OUTPUT''
                   = Lst (as_list (env_get (gen_env self) ''ARCHIVEBUILDER_OUTPUT'')
                          @ [os_path_abspath os (os_path_join os [''build'', path_bldpath os, name])])
               \<and> env_get (env builder) ''ARCHIVEBUILDER_FLAGS''
                   = Lst (as_list (env_get (gen_env self) ''ARCHIVEBUILDER_FLAGS'')
                          @ [''-m''] @ (if use_compression self then [''-c''] else [])))
         | Lst xs \<Rightarrow>
             (\<exists>g builder.
                 apply_barchive_after os self = Inl (Raised ''TypeError'' ''DYNAMO_HOME'', g)
               \<and> tasks g = tasks self @ [builder]
               \<and> task_type builder = ''resource_archive''
               \<and> env builder = gen_env self)"
proof (cases "env_get (gen_env self) ''DYNAMO_HOME''")
  case (Str home)
  with assms show ?thesis
    by (simp add: apply_barchive_after_def Let_def append_value_same append_value_other
          env_get_upd_other)
next
  case (Lst xs)
  with assms show ?thesis
    by (simp add: apply_barchive_after_def Let_def)
qed

theorem archive_builder_arguments_witness:
  "source_root gen_uncompressed = Some ''content''
   \<and> resource_name gen_uncompressed = Some ''game''
   \<and> (\<exists>g builder.
           apply_barchive_after build_host_posix (gen_uncompressed\<lparr>use_compression := True\<rparr>) = Inr ([], g)
         \<and> tasks g = [builder]
         \<and> env_get (env builder) ''ARCHIVEBUILDER_ROOT'' = Lst [''content'']
         \<and> env_get (env builder) ''ARCHIVEBUILDER_OUTPUT'' = Lst [''/work/build/default/content/game'']
         \<and> env_get (env builder) ''ARCHIVEBUILDER_FLAGS'' = Lst [''-m'', ''-c''])
   \<and> (\<exists>g builder.
           apply_barchive_after build_host_posix (gen_uncompressed\<lparr>gen_env := Map.empty\<rparr>)
             = Inl (Raised ''TypeError'' ''DYNAMO_HOME'', g)
         \<and> tasks g = [builder]
         \<and> env_get (env builder) ''ARCHIVEBUILDER_FLAGS'' = Lst [])"
proof -
  have a: "\<exists>g builder.
           apply_barchive_after build_host_posix (gen_uncompressed\<lparr>use_compression := True\<rparr>) = Inr ([], g)
         \<and> tasks g = [builder]
         \<and> env_get (env builder) ''ARCHIVEBUILDER_ROOT'' = Lst [''content'']
         \<and> env_get (env builder) ''ARCHIVEBUILDER_OUTPUT'' = Lst [''/work/build/default/content/game'']
         \<and> env_get (env builder) ''ARCHIVEBUILDER_FLAGS'' = Lst [''-m'', ''-c'']"
    using archive_builder_arguments
       [of "gen_uncompressed\<lparr>use_compression := True\<rparr>" "''content''" "''game''" build_host_posix]
    by (simp add: gen_uncompressed_def build_host_posix_def env_get_def) blast
  have b: "\<exists>g builder.
           apply_barchive_after build_host_posix (gen_uncompressed\<lparr>gen_env := Map.empty\<rparr>)
             = Inl (Raised ''TypeError'' ''DYNAMO_HOME'', g)
         \<and> tasks g = [builder]
         \<and> env_get (env builder) ''ARCHIVEBUILDER_FLAGS'' = Lst []"
    using archive_builder_arguments
       [of "gen_uncompressed\<lparr>gen_env := Map.empty\<rparr>" "''content''" "''game''" build_host_posix]
    by (auto simp: gen_uncompressed_def env_get_def)
  have c: "source_root gen_uncompressed = Some ''content''"
          "resource_name gen_uncompressed = Some ''game''"
    by (simp_all add: gen_uncompressed_def)
  from a b c show ?thesis by blast
qed

end
